theory Spec2Isabelle
  imports Main "HOL-Library.Word" "HOL-Library.List_Lexorder"
begin

unbundle bit_operations_syntax

section \<open>Configuration enums (BlockDataManagerConfig.h)\<close>

datatype ARMORY_DB_TYPE =
    ARMORY_DB_BARE
  | ARMORY_DB_LITE
  | ARMORY_DB_PARTIAL
  | ARMORY_DB_FULL
  | ARMORY_DB_SUPER
  | ARMORY_DB_WHATEVER

datatype DB_PRUNE_TYPE = DB_PRUNE_ALL | DB_PRUNE_NONE | DB_PRUNE_WHATEVER

section \<open>Types that lmdb_wrapper.h uses and other headers declare\<close>

text \<open>
  Modelled from the spec: the enum \<open>DB_SELECT\<close> is used by lmdb_wrapper.h and declared
  in a header that is not among the sources. Section 3.2 of the spec lists the five logical
  stores; lmdb_wrapper.h itself names \<open>HEADERS\<close> and \<open>BLKDATA\<close>.
\<close>

datatype DB_SELECT = HEADERS | BLKDATA | HISTORY | TXHINTS | SPENTNESS

text \<open>
  Modelled from the spec: \<open>LMDB::Mode\<close> (lmdbpp.h, not among the sources); section 4.3.2
  speaks of read and write transactions, chosen per call site.
\<close>

datatype LMDB_Mode = ReadOnly | ReadWrite

type_synonym BinaryData = "8 word list"

text \<open>
  Modelled from the spec: \<open>BinaryRefReader\<close> (BinaryData.h, not among the sources) is a
  view of a byte slice with a position (section 4.1); \<open>resetPosition\<close> puts the position
  back to 0 (section 4.2).
\<close>

record BinaryRefReader =
  bdRef :: BinaryData
  pos :: nat

definition resetPosition :: "BinaryRefReader \<Rightarrow> BinaryRefReader" where
  "resetPosition brr = brr\<lparr>pos := 0\<rparr>"

text \<open>
  Modelled from the spec: \<open>LMDBEnv::Transaction\<close> (lmdbpp.h, not among the sources). By
  section 4.3.2 a transaction is begun on an environment in a mode; the record keeps the
  environment pointer it was opened on (\<open>None\<close> is the null pointer) and the mode.
\<close>

record 'env Transaction =
  txn_env :: "'env option"
  txn_mode :: LMDB_Mode

section \<open>LDBIter\<close>

text \<open>
  The private members of class \<open>LDBIter\<close>. The cursor type \<open>LMDB::Iterator\<close> is a type
  parameter.
\<close>

record 'it LDBIter =
  iter :: 'it
  currKey :: BinaryData
  currValue :: BinaryData
  currKeyReader :: BinaryRefReader
  currValueReader :: BinaryRefReader
  isDirty :: bool

text \<open>
  \<open>void resetReaders(void){currKeyReader_.resetPosition();currValueReader_.resetPosition();}\<close>
\<close>

definition resetReaders :: "'it LDBIter \<Rightarrow> 'it LDBIter" where
  "resetReaders it =
     (let it1 = it\<lparr>currKeyReader := resetPosition (currKeyReader it)\<rparr>
      in it1\<lparr>currValueReader := resetPosition (currValueReader it1)\<rparr>)"

text \<open>
  Modelled from the spec: the converting constructor \<open>LDBIter(LMDB::Iterator&&)\<close> is
  declared in lmdb_wrapper.h and defined elsewhere. It takes over the cursor; key and value
  are materialized lazily on the first read after a move (section 4.2), so the iterator
  starts dirty with nothing read.
\<close>

definition LDBIter_of :: "'it \<Rightarrow> 'it LDBIter" where
  "LDBIter_of move =
     \<lparr>iter = move, currKey = [], currValue = [],
      currKeyReader = \<lparr>bdRef = [], pos = 0\<rparr>,
      currValueReader = \<lparr>bdRef = [], pos = 0\<rparr>,
      isDirty = True\<rparr>"

section \<open>LMDBBlockDatabase\<close>

text \<open>
  The members of class \<open>LMDBBlockDatabase\<close> that the inline methods read.
  \<open>dbEnv\<close> is a \<open>map<DB_SELECT, shared_ptr<LMDBEnv>>\<close>: a key may be absent, and a
  present key may hold the null pointer (\<open>Some None\<close>). \<open>dbsTable\<close> is the array
  \<open>LMDB dbs_[COUNT]\<close>, one store per selector. The types \<open>LMDBEnv\<close> and \<open>LMDB\<close> are
  type parameters. Member names are written without the trailing underscore of the source.
\<close>

record ('env, 'db) LMDBBlockDatabase =
  armoryDbType :: ARMORY_DB_TYPE
  dbPruneType :: DB_PRUNE_TYPE
  dbEnv :: "DB_SELECT \<rightharpoonup> 'env option"
  dbsTable :: "DB_SELECT \<Rightarrow> 'db"
  dbIsOpen :: bool
  validDupByHeight :: "32 word \<rightharpoonup> 8 word"

text \<open>
  \<open>std::map::operator[]\<close>: a missing key is inserted with a value-initialized (null)
  pointer, which is then the result.
\<close>

definition map_subscript ::
  "('k \<rightharpoonup> 'v option) \<Rightarrow> 'k \<Rightarrow> 'v option \<times> ('k \<rightharpoonup> 'v option)" where
  "map_subscript m k =
     (case m k of
        Some p \<Rightarrow> (p, m)
      | None \<Rightarrow> (None, m(k \<mapsto> None)))"

text \<open>
  \<open>beginDBTransaction(tx, db, mode)\<close>: the result is the transaction assigned to \<open>*tx\<close>
  and the database object (\<open>dbEnv\<close> is mutable and \<open>operator[]\<close> may insert).
\<close>

definition beginDBTransaction ::
  "('env, 'db) LMDBBlockDatabase \<Rightarrow> DB_SELECT \<Rightarrow> LMDB_Mode
     \<Rightarrow> 'env Transaction \<times> ('env, 'db) LMDBBlockDatabase" where
  "beginDBTransaction this db mode =
     (if armoryDbType this = ARMORY_DB_SUPER
      then (case map_subscript (dbEnv this) BLKDATA of
              (p, m) \<Rightarrow> (\<lparr>txn_env = p, txn_mode = mode\<rparr>, this\<lparr>dbEnv := m\<rparr>))
      else (case map_subscript (dbEnv this) db of
              (p, m) \<Rightarrow> (\<lparr>txn_env = p, txn_mode = mode\<rparr>, this\<lparr>dbEnv := m\<rparr>)))"

definition getDbType :: "('env, 'db) LMDBBlockDatabase \<Rightarrow> ARMORY_DB_TYPE" where
  "getDbType this = armoryDbType this"

definition getDbSelect :: "('env, 'db) LMDBBlockDatabase \<Rightarrow> DB_SELECT \<Rightarrow> DB_SELECT" where
  "getDbSelect this dbs =
     (if dbs = HEADERS then HEADERS
      else if armoryDbType this = ARMORY_DB_SUPER then BLKDATA
      else dbs)"

text \<open>
  \<open>LDBIter getIterator(DB_SELECT db) const { return dbs_[db].begin(); }\<close>
  \<open>LMDB::begin\<close> (lmdbpp.h) is the parameter \<open>lmdb_begin\<close>.
\<close>

definition getIterator ::
  "('db \<Rightarrow> 'it) \<Rightarrow> ('env, 'db) LMDBBlockDatabase \<Rightarrow> DB_SELECT \<Rightarrow> 'it LDBIter" where
  "getIterator lmdb_begin this db = LDBIter_of (lmdb_begin (dbsTable this db))"

text \<open>The environment pointer a selector stands for: \<open>dbEnv_[db].get()\<close>.\<close>

definition envOf :: "('env, 'db) LMDBBlockDatabase \<Rightarrow> DB_SELECT \<Rightarrow> 'env option" where
  "envOf this db = fst (map_subscript (dbEnv this) db)"

text \<open>
  A Supernode database laid out as section 4.3.1 of the spec describes it: HEADERS in an
  environment of its own, the other stores in the environment of BLKDATA.
\<close>

definition superLayout :: "(string, string) LMDBBlockDatabase" where
  "superLayout =
     \<lparr>armoryDbType = ARMORY_DB_SUPER, dbPruneType = DB_PRUNE_NONE,
      dbEnv = [HEADERS \<mapsto> Some ''headers'', BLKDATA \<mapsto> Some ''blocks''],
      dbsTable = (\<lambda>d. case d of HEADERS \<Rightarrow> ''headers'' | BLKDATA \<Rightarrow> ''blocks''
                | HISTORY \<Rightarrow> ''history'' | TXHINTS \<Rightarrow> ''txhints''
                | SPENTNESS \<Rightarrow> ''spentness''),
      dbIsOpen = True, validDupByHeight = Map.empty\<rparr>"

definition fullLayout :: "(string, string) LMDBBlockDatabase" where
  "fullLayout =
     \<lparr>armoryDbType = ARMORY_DB_FULL, dbPruneType = DB_PRUNE_NONE,
      dbEnv = [HEADERS \<mapsto> Some ''headers'', BLKDATA \<mapsto> Some ''blocks'',
                HISTORY \<mapsto> Some ''history'', TXHINTS \<mapsto> Some ''txhints''],
      dbsTable = (\<lambda>d. case d of HEADERS \<Rightarrow> ''headers'' | BLKDATA \<Rightarrow> ''blocks''
                | HISTORY \<Rightarrow> ''history'' | TXHINTS \<Rightarrow> ''txhints''
                | SPENTNESS \<Rightarrow> ''spentness''),
      dbIsOpen = True, validDupByHeight = Map.empty\<rparr>"

text \<open>
  A cursor for the examples: \<open>LMDB::begin\<close> as the pair of the store it walks and the
  position 0.
\<close>

definition beginAtFirst :: "string \<Rightarrow> string \<times> nat" where
  "beginAtFirst d = (d, 0)"

section \<open>Key schema\<close>

text \<open>
  Modelled from the spec: the key builders live in headers that are not among the sources;
  the comment block of lmdb_wrapper.h names them (\<open>heightAndDupToHgtx(uint32_t, uint8_t)\<close>,
  \<open>BinaryWriter.put_uint16_t(txIndex, BIGENDIAN)\<close>) and says that every integer in a
  key is big-endian. Section 3.1 of the spec: the height is a 32-bit value, HGTX is the
  4-byte big-endian composite \<open>(h:24 | d:8)\<close>, TxIdx and TxOutIdx are 16-bit
  big-endian, DBKey6 is \<open>HGTX || TxIdx\<close> and DBKey8 is \<open>DBKey6 || TxOutIdx\<close>.
\<close>

definition put_uint32_t_BE :: "32 word \<Rightarrow> BinaryData" where
  "put_uint32_t_BE x =
     [ucast (drop_bit 24 x), ucast (drop_bit 16 x), ucast (drop_bit 8 x), ucast x]"

definition put_uint16_t_BE :: "16 word \<Rightarrow> BinaryData" where
  "put_uint16_t_BE x = [ucast (drop_bit 8 x), ucast x]"

text \<open>
  The composite \<open>(h:24 | d:8)\<close> in a 32-bit word: the height shifted left by 8 bits (its
  top 8 bits fall off the word), the dupID in the low byte.
\<close>

definition heightAndDupToHgtx :: "32 word \<Rightarrow> 8 word \<Rightarrow> BinaryData" where
  "heightAndDupToHgtx hgt dup = put_uint32_t_BE (push_bit 8 hgt OR ucast dup)"

definition DBKey6 :: "32 word \<Rightarrow> 8 word \<Rightarrow> 16 word \<Rightarrow> BinaryData" where
  "DBKey6 hgt dup txIdx = heightAndDupToHgtx hgt dup @ put_uint16_t_BE txIdx"

definition DBKey8 :: "32 word \<Rightarrow> 8 word \<Rightarrow> 16 word \<Rightarrow> 16 word \<Rightarrow> BinaryData" where
  "DBKey8 hgt dup txIdx txOutIdx = DBKey6 hgt dup txIdx @ put_uint16_t_BE txOutIdx"

text \<open>
  A composite coordinate (height, dupID, txIdx, txOutIdx), its key, and the lexicographic
  order height, then dupID, then txIdx, then txOutIdx on the numeric fields. Keys are
  compared as byte strings (\<open><\<close> on lists is the lexicographic order).
\<close>

type_synonym coord = "32 word \<times> 8 word \<times> 16 word \<times> 16 word"

fun encode :: "coord \<Rightarrow> BinaryData" where
  "encode (hgt, dup, txIdx, txOutIdx) = DBKey8 hgt dup txIdx txOutIdx"

fun precedes :: "coord \<Rightarrow> coord \<Rightarrow> bool" where
  "precedes (h, d, i, j) (h', d', i', j') \<longleftrightarrow>
     h < h' \<or> (h = h' \<and> (d < d' \<or> (d = d' \<and> (i < i' \<or> (i = i' \<and> j < j')))))"

text \<open>The three low bytes of a height, most significant first.\<close>

definition hgt3 :: "32 word \<Rightarrow> BinaryData" where
  "hgt3 h = [ucast (drop_bit 16 h), ucast (drop_bit 8 h), ucast h]"

section \<open>Stored objects and typed accessors\<close>

text \<open>
  Modelled from the spec: the stored-object classes and the bodies of the accessors that
  lmdb_wrapper.h declares (\<open>getStoredTx_byHash\<close>, \<open>getHintsForTxHash\<close>,
  \<open>getBareHeader\<close>, \<open>getValidDupIDForHeight\<close>, \<open>setValidDupIDForHeight\<close>) are not
  among the sources. The records follow section 3.3 of the spec, field by field.
\<close>

datatype Spentness = Unknown | Unspent | Spent BinaryData

record StoredTxOut =
  stxo_dbKey8 :: BinaryData
  stxo_value :: "64 word"
  stxo_script :: BinaryData
  stxo_spentness :: Spentness
  stxo_isCoinbase :: bool
  stxo_parentHash :: "BinaryData option"

record StoredTx =
  stx_hash :: BinaryData
  stx_dbKey6 :: BinaryData
  stx_rawTx :: BinaryData
  stx_numTxOut :: nat
  stx_fragmented :: bool
  stx_stxoMap :: "16 word \<rightharpoonup> StoredTxOut"

record StoredHeader =
  sbh_hash :: BinaryData
  sbh_rawHeader :: BinaryData
  sbh_height :: "32 word"
  sbh_dupID :: "8 word"
  sbh_numTx :: nat
  sbh_numBytes :: nat
  sbh_merkle :: "BinaryData option"
  sbh_blockAppliedToDB :: bool
  sbh_txMap :: "16 word \<rightharpoonup> StoredTx"

record StoredTxHints =
  sths_hashPrefix :: BinaryData
  sths_dbKeyList :: "BinaryData list"
  sths_preferredIndex :: nat

text \<open>
  The list of a height holds one byte per header: the dupID, with bit 0x80 set on the one
  that is valid (section 3.1), and the header's hash.
\<close>

record StoredHeadHgtList =
  hhl_height :: "32 word"
  hhl_dupAndHashList :: "(8 word \<times> BinaryData) list"

text \<open>
  Modelled from the spec: the contents of one store (\<open>LMDB\<close>, lmdbpp.h), by key family
  (section 4.1): \<open>HEADHASH || hash\<close>, \<open>HEADHGT || height\<close>, \<open>TXDATA || DBKey6\<close> and
  \<open>TXHINTS || hashPrefix\<close>, each with the stored object its value parses to. Every store
  has every family, so that the stores can be folded into one.
\<close>

record LMDB =
  headHashEntries :: "BinaryData \<rightharpoonup> StoredHeader"
  headHgtEntries :: "32 word \<rightharpoonup> StoredHeadHgtList"
  txDataEntries :: "BinaryData \<rightharpoonup> StoredTx"
  txHintsEntries :: "BinaryData \<rightharpoonup> StoredTxHints"

definition emptyLMDB :: LMDB where
  "emptyLMDB =
     \<lparr>headHashEntries = Map.empty, headHgtEntries = Map.empty,
      txDataEntries = Map.empty, txHintsEntries = Map.empty\<rparr>"

text \<open>
  Modelled from the spec: by section 4.3.4, \<open>getStoredTx_byHash\<close> looks up via TXHINTS:
  read the 4-byte prefix bucket, walk the candidate DBKey6s, fetch each tx, compare the full
  hash; the first match wins. Reads are routed per \<open>DB_SELECT\<close> with the Supernode
  folding rule (section 4.3.2), so in Supernode mode both reads go to BLKDATA.
\<close>

definition getHintsForTxHash ::
  "('env, LMDB) LMDBBlockDatabase \<Rightarrow> BinaryData \<Rightarrow> StoredTxHints" where
  "getHintsForTxHash this txHash =
     (case txHintsEntries (dbsTable this (getDbSelect this TXHINTS)) (take 4 txHash) of
        Some sths \<Rightarrow> sths
      | None \<Rightarrow>
          \<lparr>sths_hashPrefix = take 4 txHash, sths_dbKeyList = [],
           sths_preferredIndex = 0\<rparr>)"

fun firstTxWithHash ::
  "(BinaryData \<rightharpoonup> StoredTx) \<Rightarrow> BinaryData \<Rightarrow> BinaryData list
     \<Rightarrow> (BinaryData \<times> StoredTx) option" where
  "firstTxWithHash txs txHash [] = None"
| "firstTxWithHash txs txHash (hint # hints) =
     (case txs hint of
        None \<Rightarrow> firstTxWithHash txs txHash hints
      | Some stx \<Rightarrow>
          if stx_hash stx = txHash then Some (hint, stx)
          else firstTxWithHash txs txHash hints)"

text \<open>
  The out-parameters \<open>StoredTx* stx\<close> and \<open>BinaryData* DBkey\<close> are optional
  (\<open>None\<close> is \<open>nullptr\<close>); the result is the returned flag and what the two pointers
  point to afterwards.
\<close>

definition getStoredTx_byHash ::
  "('env, LMDB) LMDBBlockDatabase \<Rightarrow> BinaryData \<Rightarrow> StoredTx option \<Rightarrow> BinaryData option
     \<Rightarrow> bool \<times> StoredTx option \<times> BinaryData option" where
  "getStoredTx_byHash this txHash stx DBkey =
     (case firstTxWithHash (txDataEntries (dbsTable this (getDbSelect this BLKDATA))) txHash
             (sths_dbKeyList (getHintsForTxHash this txHash)) of
        None \<Rightarrow> (False, stx, DBkey)
      | Some (hint, found) \<Rightarrow>
          (True, map_option (\<lambda>_. found) stx, map_option (\<lambda>_. hint) DBkey))"

text \<open>
  The lookup's own condition: some DBKey6 in the TXHINTS bucket of the hash's 4-byte prefix
  holds a transaction with hash \<open>txHash\<close>.
\<close>

definition txListedWithHash :: "('env, LMDB) LMDBBlockDatabase \<Rightarrow> BinaryData \<Rightarrow> bool" where
  "txListedWithHash this txHash =
     list_ex
       (\<lambda>hint. case txDataEntries (dbsTable this (getDbSelect this BLKDATA)) hint of
                 None \<Rightarrow> False
               | Some stx \<Rightarrow> stx_hash stx = txHash)
       (sths_dbKeyList (getHintsForTxHash this txHash))"

text \<open>
  Modelled from the spec: the write path of a transaction, whose code is not among the
  sources (lmdb_wrapper.h declares \<open>putStoredTx\<close> and \<open>putStoredTxHints\<close>). By
  section 4.3.4 \<open>putStoredTx\<close> writes the transaction header, here under the
  transaction's DBKey6 in the TXDATA family (the per-output records of \<open>withTxOut\<close> are
  another key family, which no lookup by hash reads), and \<open>putStoredTxHints\<close> writes a
  bucket under its hash prefix. By the data flow of section 2 the affected
  \<open>StoredTxHints\<close> is updated in the same transaction as the \<open>StoredTx\<close> is written:
  the bucket of the hash's 4-byte prefix gets the transaction's DBKey6, appended if new
  (section 4.3.4).
\<close>

definition putStoredTxHints ::
  "('env, LMDB) LMDBBlockDatabase \<Rightarrow> StoredTxHints \<Rightarrow> ('env, LMDB) LMDBBlockDatabase" where
  "putStoredTxHints this sths =
     (let sel = getDbSelect this TXHINTS; store = dbsTable this sel
      in this\<lparr>dbsTable := (dbsTable this)
                (sel := store\<lparr>txHintsEntries :=
                                (txHintsEntries store)(sths_hashPrefix sths \<mapsto> sths)\<rparr>)\<rparr>)"

definition putStoredTxHeader ::
  "('env, LMDB) LMDBBlockDatabase \<Rightarrow> StoredTx \<Rightarrow> ('env, LMDB) LMDBBlockDatabase" where
  "putStoredTxHeader this stx =
     (let sel = getDbSelect this BLKDATA; store = dbsTable this sel
      in this\<lparr>dbsTable := (dbsTable this)
                (sel := store\<lparr>txDataEntries :=
                                (txDataEntries store)(stx_dbKey6 stx \<mapsto> stx)\<rparr>)\<rparr>)"

definition storeTxWithHints ::
  "('env, LMDB) LMDBBlockDatabase \<Rightarrow> StoredTx \<Rightarrow> ('env, LMDB) LMDBBlockDatabase" where
  "storeTxWithHints this stx =
     (let sths = getHintsForTxHash this (stx_hash stx);
          listed = (if stx_dbKey6 stx \<in> set (sths_dbKeyList sths) then sths
                    else sths\<lparr>sths_dbKeyList := sths_dbKeyList sths @ [stx_dbKey6 stx]\<rparr>)
      in putStoredTxHeader (putStoredTxHints this listed) stx)"

text \<open>
  The TXDATA and TXHINTS tables that the accessors read, and the invariant of the write
  path: every stored transaction is listed in the bucket of its hash prefix, and every
  bucket is stored under its own prefix.
\<close>

definition txTable :: "('env, LMDB) LMDBBlockDatabase \<Rightarrow> BinaryData \<rightharpoonup> StoredTx" where
  "txTable this = txDataEntries (dbsTable this (getDbSelect this BLKDATA))"

definition hintTable :: "('env, LMDB) LMDBBlockDatabase \<Rightarrow> BinaryData \<rightharpoonup> StoredTxHints" where
  "hintTable this = txHintsEntries (dbsTable this (getDbSelect this TXHINTS))"

definition hintsCoverTxs :: "('env, LMDB) LMDBBlockDatabase \<Rightarrow> bool" where
  "hintsCoverTxs this \<longleftrightarrow>
     (\<forall>k t. txTable this k = Some t \<longrightarrow>
        k \<in> set (sths_dbKeyList (getHintsForTxHash this (stx_hash t))))
     \<and> (\<forall>p s. hintTable this p = Some s \<longrightarrow> sths_hashPrefix s = p)"

text \<open>
  Modelled from the spec: by section 4.3.3, the valid-dup table is the in-memory map
  \<open>validDupByHeight_\<close> from height to dupID with the high bit cleared, mirrored in
  HEADERS under \<open>HEADHGT || height\<close>. \<open>getValidDupIDForHeight\<close> returns the cached byte
  or queries the DB on a miss (\<open>None\<close>: no valid dupID is recorded for the height).
  \<open>setValidDupIDForHeight\<close> updates the table and the mirror; with \<open>overwrite = false\<close>
  and a value already there, the call is a no-op.
\<close>

definition getValidDupIDForHeight_fromDB ::
  "('env, LMDB) LMDBBlockDatabase \<Rightarrow> 32 word \<Rightarrow> 8 word option" where
  "getValidDupIDForHeight_fromDB this blockHgt =
     (case headHgtEntries (dbsTable this (getDbSelect this HEADERS)) blockHgt of
        None \<Rightarrow> None
      | Some hhl \<Rightarrow>
          (case List.find (\<lambda>(b, hash). b AND 0x80 \<noteq> 0) (hhl_dupAndHashList hhl) of
             None \<Rightarrow> None
           | Some (b, hash) \<Rightarrow> Some (b AND 0x7F)))"

definition getValidDupIDForHeight ::
  "('env, LMDB) LMDBBlockDatabase \<Rightarrow> 32 word \<Rightarrow> 8 word option" where
  "getValidDupIDForHeight this blockHgt =
     (case validDupByHeight this blockHgt of
        Some dup \<Rightarrow> Some dup
      | None \<Rightarrow> getValidDupIDForHeight_fromDB this blockHgt)"

definition markValidDup :: "8 word \<Rightarrow> StoredHeadHgtList \<Rightarrow> StoredHeadHgtList" where
  "markValidDup dup hhl =
     hhl\<lparr>hhl_dupAndHashList :=
           map (\<lambda>(b, hash). (if b AND 0x7F = dup AND 0x7F then b OR 0x80 else b AND 0x7F, hash))
             (hhl_dupAndHashList hhl)\<rparr>"

definition setValidDupIDForHeight ::
  "('env, LMDB) LMDBBlockDatabase \<Rightarrow> 32 word \<Rightarrow> 8 word \<Rightarrow> bool
     \<Rightarrow> ('env, LMDB) LMDBBlockDatabase" where
  "setValidDupIDForHeight this blockHgt dup overwrite =
     (if \<not> overwrite \<and> getValidDupIDForHeight this blockHgt \<noteq> None then this
      else
        let sel = getDbSelect this HEADERS;
            headers = dbsTable this sel;
            mirror = (case headHgtEntries headers blockHgt of
                        None \<Rightarrow> headHgtEntries headers
                      | Some hhl \<Rightarrow> (headHgtEntries headers)(blockHgt \<mapsto> markValidDup dup hhl))
        in this\<lparr>validDupByHeight := (validDupByHeight this)(blockHgt \<mapsto> dup AND 0x7F),
                dbsTable := (dbsTable this)(sel := headers\<lparr>headHgtEntries := mirror\<rparr>)\<rparr>)"

text \<open>
  Modelled from the spec: \<open>getBareHeader\<close>, the three overloads that lmdb_wrapper.h
  declares. Bare headers live in HEADERS (section 3.2) under \<open>HEADHASH || hash\<close>; the
  list under \<open>HEADHGT || height\<close> names the hash of each dupID at a height; without a
  dupID the valid one of the height is taken. A missing entry gives \<open>false\<close> and leaves
  the out-parameter as it was (section 7).
\<close>

definition getBareHeader_byHash ::
  "('env, LMDB) LMDBBlockDatabase \<Rightarrow> StoredHeader \<Rightarrow> BinaryData \<Rightarrow> bool \<times> StoredHeader" where
  "getBareHeader_byHash this sbh headHash =
     (case headHashEntries (dbsTable this (getDbSelect this HEADERS)) headHash of
        None \<Rightarrow> (False, sbh)
      | Some stored \<Rightarrow> (True, stored))"

definition getBareHeader_byHgtDup ::
  "('env, LMDB) LMDBBlockDatabase \<Rightarrow> StoredHeader \<Rightarrow> 32 word \<Rightarrow> 8 word
     \<Rightarrow> bool \<times> StoredHeader" where
  "getBareHeader_byHgtDup this sbh blkHgt dup =
     (case headHgtEntries (dbsTable this (getDbSelect this HEADERS)) blkHgt of
        None \<Rightarrow> (False, sbh)
      | Some hhl \<Rightarrow>
          (case List.find (\<lambda>(b, hash). b AND 0x7F = dup) (hhl_dupAndHashList hhl) of
             None \<Rightarrow> (False, sbh)
           | Some (b, hash) \<Rightarrow> getBareHeader_byHash this sbh hash))"

definition getBareHeader_byHgt ::
  "('env, LMDB) LMDBBlockDatabase \<Rightarrow> StoredHeader \<Rightarrow> 32 word \<Rightarrow> bool \<times> StoredHeader" where
  "getBareHeader_byHgt this sbh blkHgt =
     (case getValidDupIDForHeight this blkHgt of
        None \<Rightarrow> (False, sbh)
      | Some dup \<Rightarrow> getBareHeader_byHgtDup this sbh blkHgt dup)"

section \<open>An example database\<close>

text \<open>
  Two transactions whose hashes share the first four bytes, stored at height 100 under two
  DBKey6s that the same TXHINTS bucket lists; one header at height 100, dupID 0, valid.
\<close>

definition hashA :: BinaryData where
  "hashA = [0xAA, 0xBB, 0xCC, 0xDD] @ replicate 28 1"

definition hashB :: BinaryData where
  "hashB = [0xAA, 0xBB, 0xCC, 0xDD] @ replicate 28 2"

definition hashC :: BinaryData where
  "hashC = [0xAA, 0xBB, 0xCC, 0xDD] @ replicate 28 3"

definition headHashX :: BinaryData where
  "headHashX = [0, 0, 0, 0] @ replicate 28 7"

definition txWith :: "BinaryData \<Rightarrow> BinaryData \<Rightarrow> StoredTx" where
  "txWith h key =
     \<lparr>stx_hash = h, stx_dbKey6 = key, stx_rawTx = [], stx_numTxOut = 0,
      stx_fragmented = True, stx_stxoMap = Map.empty\<rparr>"

definition headerX :: StoredHeader where
  "headerX =
     \<lparr>sbh_hash = headHashX, sbh_rawHeader = [], sbh_height = 100, sbh_dupID = 0,
      sbh_numTx = 2, sbh_numBytes = 0, sbh_merkle = None, sbh_blockAppliedToDB = False,
      sbh_txMap = Map.empty\<rparr>"

definition blankHeader :: StoredHeader where
  "blankHeader =
     \<lparr>sbh_hash = [], sbh_rawHeader = [], sbh_height = 0xFFFFFFFF, sbh_dupID = 0xFF,
      sbh_numTx = 0, sbh_numBytes = 0, sbh_merkle = None, sbh_blockAppliedToDB = False,
      sbh_txMap = Map.empty\<rparr>"

definition exampleStores :: "DB_SELECT \<Rightarrow> LMDB" where
  "exampleStores d =
     (case d of
        HEADERS \<Rightarrow>
          emptyLMDB\<lparr>headHashEntries := [headHashX \<mapsto> headerX],
                    headHgtEntries :=
                      [100 \<mapsto> \<lparr>hhl_height = 100, hhl_dupAndHashList = [(0x80, headHashX)]\<rparr>]\<rparr>
      | BLKDATA \<Rightarrow>
          emptyLMDB\<lparr>txDataEntries :=
                      [[0, 0, 100, 0, 0, 1] \<mapsto> txWith hashA [0, 0, 100, 0, 0, 1],
                       [0, 0, 100, 0, 0, 2] \<mapsto> txWith hashB [0, 0, 100, 0, 0, 2]]\<rparr>
      | TXHINTS \<Rightarrow>
          emptyLMDB\<lparr>txHintsEntries :=
                      [[0xAA, 0xBB, 0xCC, 0xDD] \<mapsto>
                         \<lparr>sths_hashPrefix = [0xAA, 0xBB, 0xCC, 0xDD],
                          sths_dbKeyList = [[0, 0, 100, 0, 0, 1], [0, 0, 100, 0, 0, 2]],
                          sths_preferredIndex = 0\<rparr>]\<rparr>
      | _ \<Rightarrow> emptyLMDB)"

definition exampleDb :: "(string, LMDB) LMDBBlockDatabase" where
  "exampleDb =
     \<lparr>armoryDbType = ARMORY_DB_FULL, dbPruneType = DB_PRUNE_NONE,
      dbEnv = [HEADERS \<mapsto> Some ''headers'', BLKDATA \<mapsto> Some ''blocks'',
                HISTORY \<mapsto> Some ''history'', TXHINTS \<mapsto> Some ''txhints''],
      dbsTable = exampleStores,
      dbIsOpen = True, validDupByHeight = [100 \<mapsto> 0]\<rparr>"

text \<open>A freshly opened database: every store is empty.\<close>

definition freshDb :: "(string, LMDB) LMDBBlockDatabase" where
  "freshDb =
     \<lparr>armoryDbType = ARMORY_DB_FULL, dbPruneType = DB_PRUNE_NONE,
      dbEnv = [HEADERS \<mapsto> Some ''headers'', BLKDATA \<mapsto> Some ''blocks'',
                HISTORY \<mapsto> Some ''history'', TXHINTS \<mapsto> Some ''txhints''],
      dbsTable = (\<lambda>d. emptyLMDB),
      dbIsOpen = True, validDupByHeight = Map.empty\<rparr>"

text \<open>
  The example database with the header of height 100 taken out of the HEADHASH family: the
  list of the height still names its hash.
\<close>

definition exampleDbNoHeader :: "(string, LMDB) LMDBBlockDatabase" where
  "exampleDbNoHeader =
     exampleDb\<lparr>dbsTable :=
       exampleStores(HEADERS := (exampleStores HEADERS)\<lparr>headHashEntries := Map.empty\<rparr>)\<rparr>"

section \<open>Theorems\<close>

subsection \<open>Selecting stores and environments\<close>

text \<open>
  C2. For every database type and every selector \<open>dbs\<close>: \<open>getDbSelect\<close> answers HEADERS
  for HEADERS in every mode; for any other selector it answers BLKDATA when the type is
  \<open>ARMORY_DB_SUPER\<close> and \<open>dbs\<close> itself in every other mode.
\<close>

theorem getDbSelect_folding:
  "getDbSelect this HEADERS = HEADERS
   \<and> (dbs \<noteq> HEADERS \<longrightarrow> armoryDbType this = ARMORY_DB_SUPER
        \<longrightarrow> getDbSelect this dbs = BLKDATA)
   \<and> (dbs \<noteq> HEADERS \<longrightarrow> armoryDbType this \<noteq> ARMORY_DB_SUPER
        \<longrightarrow> getDbSelect this dbs = dbs)"
  by (simp add: getDbSelect_def)

theorem getDbSelect_folding_witness:
  "getDbSelect superLayout HEADERS = HEADERS
   \<and> getDbSelect superLayout TXHINTS = BLKDATA
   \<and> getDbSelect fullLayout HEADERS = HEADERS
   \<and> getDbSelect fullLayout TXHINTS = TXHINTS"
  using getDbSelect_folding [of superLayout TXHINTS]
    getDbSelect_folding [of fullLayout TXHINTS]
  by (simp add: superLayout_def fullLayout_def)

text \<open>
  C1, as amended. In Supernode mode \<open>beginDBTransaction(tx, db, mode)\<close> opens the
  transaction on \<open>dbEnv_[BLKDATA]\<close> for every selector \<open>db\<close>, HEADERS included; in
  every other mode it opens it on \<open>dbEnv_[db]\<close>. The transaction has the mode asked for.
\<close>

theorem beginDBTransaction_env:
  "(armoryDbType this = ARMORY_DB_SUPER \<longrightarrow>
      txn_env (fst (beginDBTransaction this db mode)) = envOf this BLKDATA)
   \<and> (armoryDbType this \<noteq> ARMORY_DB_SUPER \<longrightarrow>
      txn_env (fst (beginDBTransaction this db mode)) = envOf this db)
   \<and> txn_mode (fst (beginDBTransaction this db mode)) = mode"
  by (simp add: beginDBTransaction_def envOf_def split: prod.split)

theorem beginDBTransaction_env_witness:
  "txn_env (fst (beginDBTransaction superLayout HEADERS ReadOnly)) = Some ''blocks''
   \<and> txn_env (fst (beginDBTransaction superLayout TXHINTS ReadWrite)) = Some ''blocks''
   \<and> txn_env (fst (beginDBTransaction fullLayout HEADERS ReadOnly)) = Some ''headers''
   \<and> txn_mode (fst (beginDBTransaction fullLayout HEADERS ReadOnly)) = ReadOnly"
  using beginDBTransaction_env [of superLayout HEADERS ReadOnly]
    beginDBTransaction_env [of superLayout TXHINTS ReadWrite]
    beginDBTransaction_env [of fullLayout HEADERS ReadOnly]
  by (simp add: superLayout_def fullLayout_def envOf_def map_subscript_def)

text \<open>
  The claim C1 as the spec states it fails: in Supernode mode, with HEADERS in an
  environment of its own, a transaction begun for HEADERS is not opened on the environment
  of the selector that the folding rule \<open>getDbSelect\<close> assigns to HEADERS.
\<close>

theorem beginDBTransaction_headers_counterexample:
  "txn_env (fst (beginDBTransaction superLayout HEADERS ReadOnly))
     \<noteq> envOf superLayout (getDbSelect superLayout HEADERS)"
  by (simp add: beginDBTransaction_def getDbSelect_def envOf_def map_subscript_def
      superLayout_def)

text \<open>
  C10. For every selector \<open>db\<close> and every database type, \<open>getIterator(db)\<close> is the
  iterator made from \<open>dbs_[db].begin()\<close>, the store selected by the literal argument; the
  folding rule \<open>getDbSelect\<close> is not applied. In particular, in \<open>ARMORY_DB_SUPER\<close> mode
  (where the cursors of the HISTORY and BLKDATA stores differ) \<open>getIterator(HISTORY)\<close>
  walks HISTORY and not the store \<open>getDbSelect\<close> folds it into.
\<close>

theorem getIterator_literal_store:
  "getIterator lmdb_begin (this\<lparr>armoryDbType := t\<rparr>) db
     = LDBIter_of (lmdb_begin (dbsTable this db))
   \<and> iter (getIterator lmdb_begin (this\<lparr>armoryDbType := t\<rparr>) db)
     = lmdb_begin (dbsTable this db)
   \<and> (armoryDbType this = ARMORY_DB_SUPER \<longrightarrow>
        lmdb_begin (dbsTable this HISTORY) \<noteq> lmdb_begin (dbsTable this BLKDATA) \<longrightarrow>
        iter (getIterator lmdb_begin this HISTORY) = lmdb_begin (dbsTable this HISTORY)
        \<and> iter (getIterator lmdb_begin this HISTORY)
          \<noteq> lmdb_begin (dbsTable this (getDbSelect this HISTORY)))"
  by (simp add: getIterator_def LDBIter_of_def getDbSelect_def)

theorem getIterator_literal_store_witness:
  "iter (getIterator beginAtFirst superLayout HISTORY) = (''history'', 0)
   \<and> iter (getIterator beginAtFirst superLayout HISTORY)
     \<noteq> beginAtFirst (dbsTable superLayout (getDbSelect superLayout HISTORY))
   \<and> getDbSelect superLayout HISTORY = BLKDATA"
proof -
  have super: "armoryDbType superLayout = ARMORY_DB_SUPER"
    by (simp add: superLayout_def)
  have differ: "beginAtFirst (dbsTable superLayout HISTORY)
      \<noteq> beginAtFirst (dbsTable superLayout BLKDATA)"
    by (simp add: superLayout_def beginAtFirst_def)
  have "iter (getIterator beginAtFirst superLayout HISTORY)
          = beginAtFirst (dbsTable superLayout HISTORY)
        \<and> iter (getIterator beginAtFirst superLayout HISTORY)
          \<noteq> beginAtFirst (dbsTable superLayout (getDbSelect superLayout HISTORY))"
    using getIterator_literal_store
      [where lmdb_begin = beginAtFirst and this = superLayout and t = ARMORY_DB_SUPER
         and db = HISTORY] super differ
    by blast
  moreover have "beginAtFirst (dbsTable superLayout HISTORY) = (''history'', 0)"
    by (simp add: superLayout_def beginAtFirst_def)
  moreover have "getDbSelect superLayout HISTORY = BLKDATA"
    by (simp add: getDbSelect_def superLayout_def)
  ultimately show ?thesis
    by metis
qed

subsection \<open>Iterator readers\<close>

lemma resetReaders_idem: "resetReaders (resetReaders it) = resetReaders it"
  by (simp add: resetReaders_def resetPosition_def)

lemma resetReaders_funpow: "(resetReaders ^^ Suc n) it = resetReaders it"
proof (induction n)
  case 0
  show ?case by simp
next
  case (Suc n)
  have "(resetReaders ^^ Suc (Suc n)) it = resetReaders ((resetReaders ^^ Suc n) it)"
    by simp
  also have "\<dots> = resetReaders (resetReaders it)"
    by (simp only: Suc.IH)
  finally show ?case
    by (simp only: resetReaders_idem)
qed

text \<open>
  C8. For every iterator state, \<open>resetReaders()\<close> only puts the positions of the current
  key reader and the current value reader to 0: the cursor, the current key and value, the
  dirty flag and the bytes the readers view are unchanged; and calling it any number of
  consecutive times (\<open>n + 1\<close> times) has the effect of calling it once.
\<close>

theorem resetReaders_only_positions:
  "resetReaders it
     = it\<lparr>currKeyReader := (currKeyReader it)\<lparr>pos := 0\<rparr>,
          currValueReader := (currValueReader it)\<lparr>pos := 0\<rparr>\<rparr>
   \<and> iter (resetReaders it) = iter it
   \<and> currKey (resetReaders it) = currKey it
   \<and> currValue (resetReaders it) = currValue it
   \<and> isDirty (resetReaders it) = isDirty it
   \<and> bdRef (currKeyReader (resetReaders it)) = bdRef (currKeyReader it)
   \<and> bdRef (currValueReader (resetReaders it)) = bdRef (currValueReader it)
   \<and> pos (currKeyReader (resetReaders it)) = 0
   \<and> pos (currValueReader (resetReaders it)) = 0
   \<and> (resetReaders ^^ Suc n) it = resetReaders it"
  using resetReaders_funpow [of n it]
  by (simp add: resetReaders_def resetPosition_def)

subsection \<open>Big-endian keys\<close>

lemma hgtx_byte0: "(ucast (push_bit 8 (h::32 word) OR ucast (d::8 word)) :: 8 word) = d"
  by (rule bit_word_eqI) (auto simp: bit_simps dest: bit_imp_le_length)

lemma hgtx_byte1:
  "(ucast (drop_bit 8 (push_bit 8 (h::32 word) OR ucast (d::8 word))) :: 8 word) = ucast h"
  by (rule bit_word_eqI) (auto simp: bit_simps dest: bit_imp_le_length)

lemma hgtx_byte2:
  "(ucast (drop_bit 16 (push_bit 8 (h::32 word) OR ucast (d::8 word))) :: 8 word)
     = ucast (drop_bit 8 h)"
  by (rule bit_word_eqI) (auto simp: bit_simps dest: bit_imp_le_length)

lemma hgtx_byte3:
  "(ucast (drop_bit 24 (push_bit 8 (h::32 word) OR ucast (d::8 word))) :: 8 word)
     = ucast (drop_bit 16 h)"
  by (rule bit_word_eqI) (auto simp: bit_simps dest: bit_imp_le_length)

lemma hgtx_bytes: "heightAndDupToHgtx h d = hgt3 h @ [d]"
  by (simp only: heightAndDupToHgtx_def put_uint32_t_BE_def hgt3_def
      hgtx_byte0 hgtx_byte1 hgtx_byte2 hgtx_byte3 append.simps)

lemma unat_drop: "unat (drop_bit n (x::'a::len word)) = unat x div 2 ^ n"
  by (simp only: unat_drop_bit_eq) (simp only: drop_bit_eq_div)

lemma unat_byte0: "unat (ucast (x::'a::len word) :: 8 word) = unat x mod 256"
  by (simp add: unsigned_ucast_eq take_bit_eq_mod)

lemma nat_lex256:
  "X < Y \<longleftrightarrow> X div 256 < Y div 256 \<or> (X div 256 = Y div 256 \<and> X mod 256 < Y mod 256)"
  for X Y :: nat
proof -
  have X: "X = (X div 256) * 256 + X mod 256" by simp
  have Y: "Y = (Y div 256) * 256 + Y mod 256" by simp
  have a: "X mod 256 < 256" by simp
  have b: "Y mod 256 < 256" by simp
  show ?thesis using X Y a b by linarith
qed

lemma nat_eq256:
  "X = Y \<longleftrightarrow> X div 256 = Y div 256 \<and> X mod 256 = Y mod 256"
  for X Y :: nat
  by (metis div_mult_mod_eq)

lemma nat16_lex:
  fixes X Y :: nat
  assumes "X < 65536" "Y < 65536"
  shows "X < Y \<longleftrightarrow> (X div 256) mod 256 < (Y div 256) mod 256
     \<or> ((X div 256) mod 256 = (Y div 256) mod 256 \<and> X mod 256 < Y mod 256)"
proof -
  from assms have "X div 256 < 256" "Y div 256 < 256" by simp_all
  then have "(X div 256) mod 256 = X div 256" "(Y div 256) mod 256 = Y div 256"
    by simp_all
  then show ?thesis using nat_lex256 [of X Y] by simp
qed

lemma nat24_lex:
  fixes X Y :: nat
  assumes "X < 16777216" "Y < 16777216"
  shows "X < Y \<longleftrightarrow> (X div 65536) mod 256 < (Y div 65536) mod 256
     \<or> ((X div 65536) mod 256 = (Y div 65536) mod 256
        \<and> ((X div 256) mod 256 < (Y div 256) mod 256
           \<or> ((X div 256) mod 256 = (Y div 256) mod 256 \<and> X mod 256 < Y mod 256)))"
proof -
  from assms have "X div 65536 < 256" "Y div 65536 < 256" by simp_all
  then have hi: "(X div 65536) mod 256 = X div 65536" "(Y div 65536) mod 256 = Y div 65536"
    by simp_all
  have d: "X div 256 div 256 = X div 65536" "Y div 256 div 256 = Y div 65536"
    by (simp_all add: div_mult2_eq [symmetric])
  show ?thesis
    using nat_lex256 [of X Y] nat_lex256 [of "X div 256" "Y div 256"]
      nat_eq256 [of "X div 256" "Y div 256"]
    unfolding d hi by blast
qed

lemma lex_append:
  fixes xs ys :: "'a::linorder list"
  shows "length xs = length ys \<Longrightarrow>
    (xs @ us < ys @ vs \<longleftrightarrow> xs < ys \<or> (xs = ys \<and> us < vs))"
  by (induction xs ys rule: list_induct2) auto

lemma put16_less: "put_uint16_t_BE x < put_uint16_t_BE y \<longleftrightarrow> x < y"
proof -
  have bx: "unat x < 65536" using unsigned_less [of x, where ?'a = nat] by simp
  have by': "unat y < 65536" using unsigned_less [of y, where ?'a = nat] by simp
  have "put_uint16_t_BE x < put_uint16_t_BE y \<longleftrightarrow>
      (unat x div 2 ^ 8) mod 256 < (unat y div 2 ^ 8) mod 256
      \<or> ((unat x div 2 ^ 8) mod 256 = (unat y div 2 ^ 8) mod 256
         \<and> unat x mod 256 < unat y mod 256)"
    by (simp only: put_uint16_t_BE_def Cons_less_Cons not_less_Nil word_less_nat_alt
        word_unat_eq_iff [where ?'a = 8] unat_byte0 unat_drop simp_thms)
  also have "\<dots> \<longleftrightarrow> unat x < unat y"
    using nat16_lex [OF bx by'] by simp
  also have "\<dots> \<longleftrightarrow> x < y"
    by (simp only: word_less_nat_alt)
  finally show ?thesis .
qed

lemma put16_eq: "put_uint16_t_BE x = put_uint16_t_BE y \<longleftrightarrow> x = y"
proof
  assume "put_uint16_t_BE x = put_uint16_t_BE y"
  then have "\<not> put_uint16_t_BE x < put_uint16_t_BE y"
    and "\<not> put_uint16_t_BE y < put_uint16_t_BE x"
    by simp_all
  then show "x = y" by (simp add: put16_less)
qed simp

lemma hgt3_less:
  assumes "h < 2 ^ 24" "h' < 2 ^ 24"
  shows "hgt3 h < hgt3 h' \<longleftrightarrow> h < h'"
proof -
  from assms have bx: "unat h < 16777216" and by': "unat h' < 16777216"
    by (simp_all add: word_less_nat_alt)
  have "hgt3 h < hgt3 h' \<longleftrightarrow>
      (unat h div 2 ^ 16) mod 256 < (unat h' div 2 ^ 16) mod 256
      \<or> ((unat h div 2 ^ 16) mod 256 = (unat h' div 2 ^ 16) mod 256
         \<and> ((unat h div 2 ^ 8) mod 256 < (unat h' div 2 ^ 8) mod 256
      \<or> ((unat h div 2 ^ 8) mod 256 = (unat h' div 2 ^ 8) mod 256
         \<and> unat h mod 256 < unat h' mod 256)))"
    by (simp only: hgt3_def Cons_less_Cons not_less_Nil word_less_nat_alt
        word_unat_eq_iff [where ?'a = 8] unat_byte0 unat_drop simp_thms)
  also have "\<dots> \<longleftrightarrow> unat h < unat h'"
    using nat24_lex [OF bx by'] by simp
  also have "\<dots> \<longleftrightarrow> h < h'"
    by (simp only: word_less_nat_alt)
  finally show ?thesis .
qed

lemma hgt3_eq:
  assumes "h < 2 ^ 24" "h' < 2 ^ 24"
  shows "hgt3 h = hgt3 h' \<longleftrightarrow> h = h'"
proof
  assume "hgt3 h = hgt3 h'"
  then have "\<not> hgt3 h < hgt3 h'" and "\<not> hgt3 h' < hgt3 h"
    by simp_all
  with assms show "h = h'" by (simp add: hgt3_less)
qed simp

lemma length_hgt3: "length (hgt3 h) = 3"
  by (simp add: hgt3_def)

lemma length_put16: "length (put_uint16_t_BE x) = 2"
  by (simp add: put_uint16_t_BE_def)

text \<open>
  C4, as amended. For every two composite coordinates \<open>a = (height, dupID, txIdx,
  txOutIdx)\<close> and \<open>b\<close> whose heights are below \<open>2^24\<close> (the 24 bits that HGTX keeps of a
  height), the big-endian key encoding is strictly order-preserving: \<open>encode a < encode b\<close>
  in lexicographic byte order if and only if \<open>a\<close> precedes \<open>b\<close> in the order height,
  dupID, txIdx, txOutIdx on the numeric fields.
\<close>

theorem key_order_below_2p24:
  assumes "h < 2 ^ 24" and "h' < 2 ^ 24"
  shows "encode (h, d, i, j) < encode (h', d', i', j')
     \<longleftrightarrow> precedes (h, d, i, j) (h', d', i', j')"
proof -
  have "encode (h, d, i, j) < encode (h', d', i', j')
      \<longleftrightarrow> hgt3 h @ ([d] @ (put_uint16_t_BE i @ put_uint16_t_BE j))
          < hgt3 h' @ ([d'] @ (put_uint16_t_BE i' @ put_uint16_t_BE j'))"
    by (simp add: DBKey8_def DBKey6_def hgtx_bytes)
  also have "\<dots> \<longleftrightarrow> hgt3 h < hgt3 h' \<or> (hgt3 h = hgt3 h' \<and>
      (d < d' \<or> (d = d' \<and> (put_uint16_t_BE i < put_uint16_t_BE i' \<or>
         (put_uint16_t_BE i = put_uint16_t_BE i'
          \<and> put_uint16_t_BE j < put_uint16_t_BE j')))))"
    by (simp add: lex_append length_hgt3 length_put16)
  also have "\<dots> \<longleftrightarrow> precedes (h, d, i, j) (h', d', i', j')"
    using assms by (simp add: hgt3_less hgt3_eq put16_less put16_eq)
  finally show ?thesis .
qed

theorem key_order_below_2p24_witness:
  "encode (5, 1, 513, 2) < encode (5, 1, 513, 3) \<and> precedes (5, 1, 513, 2) (5, 1, 513, 3)
   \<and> \<not> encode (256, 0, 0, 0) < encode (255, 1, 7, 7)"
proof -
  have "encode (5, 1, 513, 2) < encode (5, 1, 513, 3)
      \<longleftrightarrow> precedes (5, 1, 513, 2) (5, 1, 513, 3)"
    by (rule key_order_below_2p24) simp_all
  moreover have "precedes (5, 1, 513, 2) (5, 1, 513, 3)"
    by simp
  moreover have "encode (256, 0, 0, 0) < encode (255, 1, 7, 7)
      \<longleftrightarrow> precedes (256, 0, 0, 0) (255, 1, 7, 7)"
    by (rule key_order_below_2p24) simp_all
  moreover have "\<not> precedes (256, 0, 0, 0) (255, 1, 7, 7)"
    by simp
  ultimately show ?thesis
    by blast
qed

text \<open>
  The claim C4 as the spec states it, for every 32-bit height, fails: the height \<open>2^24\<close>
  has the key bytes of height 0, so its key sorts before the key of a coordinate that it
  does not precede.
\<close>

theorem key_order_counterexample:
  "encode (0x1000000, 0, 0, 0) < encode (0, 0, 0, 1)
   \<and> \<not> precedes (0x1000000, 0, 0, 0) (0, 0, 0, 1)"
  by (simp add: DBKey8_def DBKey6_def heightAndDupToHgtx_def put_uint32_t_BE_def
      put_uint16_t_BE_def)

subsection \<open>Transactions by hash\<close>

lemma firstTxWithHash_Some:
  "firstTxWithHash txs h ks = Some (k', t') \<Longrightarrow>
     \<exists>pre post. ks = pre @ k' # post \<and> txs k' = Some t' \<and> stx_hash t' = h
        \<and> (\<forall>c \<in> set pre. \<forall>u. txs c = Some u \<longrightarrow> stx_hash u \<noteq> h)"
proof (induction ks)
  case Nil
  then show ?case by simp
next
  case (Cons k ks)
  show ?case
  proof (cases "\<exists>u. txs k = Some u \<and> stx_hash u = h")
    case True
    with Cons.prems have "k' = k" "txs k = Some t'" "stx_hash t' = h"
      by auto
    then have "k # ks = [] @ k' # ks \<and> txs k' = Some t' \<and> stx_hash t' = h
        \<and> (\<forall>c \<in> set []. \<forall>u. txs c = Some u \<longrightarrow> stx_hash u \<noteq> h)"
      by simp
    then show ?thesis by blast
  next
    case False
    with Cons.prems have "firstTxWithHash txs h ks = Some (k', t')"
      by (auto split: option.splits if_splits)
    from Cons.IH [OF this] obtain pre post where
      "ks = pre @ k' # post" "txs k' = Some t'" "stx_hash t' = h"
      "\<forall>c \<in> set pre. \<forall>u. txs c = Some u \<longrightarrow> stx_hash u \<noteq> h"
      by blast
    with False have "k # ks = (k # pre) @ k' # post \<and> txs k' = Some t' \<and> stx_hash t' = h
        \<and> (\<forall>c \<in> set (k # pre). \<forall>u. txs c = Some u \<longrightarrow> stx_hash u \<noteq> h)"
      by auto
    then show ?thesis by blast
  qed
qed

lemma firstTxWithHash_None:
  "firstTxWithHash txs h ks = None \<longleftrightarrow>
     (\<forall>c \<in> set ks. \<forall>u. txs c = Some u \<longrightarrow> stx_hash u \<noteq> h)"
  by (induction ks) (auto split: option.splits)

lemma txListedWithHash_iff:
  "txListedWithHash this h \<longleftrightarrow>
     (\<exists>k \<in> set (sths_dbKeyList (getHintsForTxHash this h)). \<exists>t.
        txDataEntries (dbsTable this (getDbSelect this BLKDATA)) k = Some t \<and> stx_hash t = h)"
  by (auto simp: txListedWithHash_def list_ex_iff split: option.splits)

lemma getStoredTx_byHash_listed:
  assumes "txListedWithHash this h"
  shows "\<exists>k t pre post.
      getStoredTx_byHash this h (Some stx0) (Some key0) = (True, Some t, Some k)
      \<and> fst (getStoredTx_byHash this h None None)
      \<and> stx_hash t = h
      \<and> txDataEntries (dbsTable this (getDbSelect this BLKDATA)) k = Some t
      \<and> sths_dbKeyList (getHintsForTxHash this h) = pre @ k # post
      \<and> (\<forall>c \<in> set pre. \<forall>u.
            txDataEntries (dbsTable this (getDbSelect this BLKDATA)) c = Some u
            \<longrightarrow> stx_hash u \<noteq> h)"
proof -
  let ?txs = "txDataEntries (dbsTable this (getDbSelect this BLKDATA))"
  let ?ks = "sths_dbKeyList (getHintsForTxHash this h)"
  from assms have "firstTxWithHash ?txs h ?ks \<noteq> None"
    unfolding firstTxWithHash_None txListedWithHash_iff by blast
  then obtain k t where found: "firstTxWithHash ?txs h ?ks = Some (k, t)"
    by auto
  from firstTxWithHash_Some [OF found] obtain pre post where
    "?ks = pre @ k # post" "?txs k = Some t" "stx_hash t = h"
    "\<forall>c \<in> set pre. \<forall>u. ?txs c = Some u \<longrightarrow> stx_hash u \<noteq> h"
    by blast
  moreover from found have
    "getStoredTx_byHash this h (Some stx0) (Some key0) = (True, Some t, Some k)"
    "fst (getStoredTx_byHash this h None None)"
    by (simp_all add: getStoredTx_byHash_def)
  ultimately show ?thesis by blast
qed

subsection \<open>The write path lists every stored transaction\<close>

lemma getHintsForTxHash_hintTable:
  "getHintsForTxHash this h =
     (case hintTable this (take 4 h) of
        Some s \<Rightarrow> s
      | None \<Rightarrow> \<lparr>sths_hashPrefix = take 4 h, sths_dbKeyList = [], sths_preferredIndex = 0\<rparr>)"
  by (simp add: getHintsForTxHash_def hintTable_def)

lemma txTable_putStoredTxHints: "txTable (putStoredTxHints this s) = txTable this"
  by (simp add: txTable_def putStoredTxHints_def Let_def getDbSelect_def)

lemma hintTable_putStoredTxHints:
  "hintTable (putStoredTxHints this s) = (hintTable this)(sths_hashPrefix s \<mapsto> s)"
  by (simp add: hintTable_def putStoredTxHints_def Let_def getDbSelect_def)

lemma txTable_putStoredTxHeader:
  "txTable (putStoredTxHeader this stx) = (txTable this)(stx_dbKey6 stx \<mapsto> stx)"
  by (simp add: txTable_def putStoredTxHeader_def Let_def getDbSelect_def)

lemma hintTable_putStoredTxHeader: "hintTable (putStoredTxHeader this stx) = hintTable this"
  by (simp add: hintTable_def putStoredTxHeader_def Let_def getDbSelect_def)

lemma txTable_storeTxWithHints:
  "txTable (storeTxWithHints this stx) = (txTable this)(stx_dbKey6 stx \<mapsto> stx)"
  by (simp add: storeTxWithHints_def Let_def txTable_putStoredTxHeader
      txTable_putStoredTxHints)

lemma prefix_getHintsForTxHash:
  "\<forall>p s. hintTable this p = Some s \<longrightarrow> sths_hashPrefix s = p \<Longrightarrow>
     sths_hashPrefix (getHintsForTxHash this h) = take 4 h"
  by (simp add: getHintsForTxHash_hintTable split: option.splits)

lemma hintsCoverTxs_storeTxWithHints:
  assumes "hintsCoverTxs this"
  shows "hintsCoverTxs (storeTxWithHints this stx)"
proof -
  let ?s = "getHintsForTxHash this (stx_hash stx)"
  let ?l = "if stx_dbKey6 stx \<in> set (sths_dbKeyList ?s) then ?s
            else ?s\<lparr>sths_dbKeyList := sths_dbKeyList ?s @ [stx_dbKey6 stx]\<rparr>"
  let ?new = "storeTxWithHints this stx"
  from assms have keyed: "\<forall>p s. hintTable this p = Some s \<longrightarrow> sths_hashPrefix s = p"
    and cover: "\<And>k t. txTable this k = Some t \<Longrightarrow>
        k \<in> set (sths_dbKeyList (getHintsForTxHash this (stx_hash t)))"
    by (auto simp: hintsCoverTxs_def)
  have pl: "sths_hashPrefix ?l = take 4 (stx_hash stx)"
    using prefix_getHintsForTxHash [OF keyed, of "stx_hash stx"] by simp
  have T: "txTable ?new = (txTable this)(stx_dbKey6 stx \<mapsto> stx)"
    by (rule txTable_storeTxWithHints)
  have H: "hintTable ?new = (hintTable this)(take 4 (stx_hash stx) \<mapsto> ?l)"
    using pl
    by (simp add: storeTxWithHints_def Let_def hintTable_putStoredTxHeader
        hintTable_putStoredTxHints)
  have own: "stx_dbKey6 stx \<in> set (sths_dbKeyList ?l)"
    by simp
  have mono: "set (sths_dbKeyList (getHintsForTxHash this h))
      \<subseteq> set (sths_dbKeyList (getHintsForTxHash ?new h))" for h
    by (auto simp: getHintsForTxHash_hintTable H split: option.splits)
  have newb: "getHintsForTxHash ?new (stx_hash stx) = ?l"
    by (simp add: getHintsForTxHash_hintTable H)
  have "k \<in> set (sths_dbKeyList (getHintsForTxHash ?new (stx_hash t)))"
    if "txTable ?new k = Some t" for k t
  proof (cases "k = stx_dbKey6 stx")
    case True
    with that T have "t = stx" by simp
    with True own newb show ?thesis by simp
  next
    case False
    with that T have "txTable this k = Some t" by simp
    from cover [OF this] mono show ?thesis by blast
  qed
  moreover have "sths_hashPrefix s = p" if "hintTable ?new p = Some s" for p s
    using that keyed pl by (auto simp: H split: if_splits)
  ultimately show ?thesis
    by (simp add: hintsCoverTxs_def)
qed

lemma hintsCoverTxs_foldl:
  "hintsCoverTxs base \<Longrightarrow> hintsCoverTxs (foldl storeTxWithHints base txs)"
  by (induction txs arbitrary: base) (simp_all add: hintsCoverTxs_storeTxWithHints)

lemma hintsCoverTxs_fresh:
  "txTable base = Map.empty \<Longrightarrow> hintTable base = Map.empty \<Longrightarrow> hintsCoverTxs base"
  by (simp add: hintsCoverTxs_def)

lemma hintsCoverTxs_listed:
  "hintsCoverTxs this \<Longrightarrow>
     txDataEntries (dbsTable this (getDbSelect this BLKDATA)) k = Some t \<Longrightarrow>
     txListedWithHash this (stx_hash t)"
  unfolding txListedWithHash_iff hintsCoverTxs_def txTable_def by blast

text \<open>
  C5. In every database that the write path has filled from a fresh one (each transaction
  written under its DBKey6 together with its hint), for every transaction hash \<open>h\<close> whose
  transaction is stored in the database (some DBKey6 of the TXDATA family holds a
  transaction with hash \<open>h\<close>), \<open>getStoredTx_byHash(h)\<close> returns true and yields a
  transaction whose full hash equals \<open>h\<close>, whatever other transactions share the 4-byte
  prefix in the TXHINTS bucket: the candidates of the bucket are compared by full hash and
  the first match wins (no candidate before the returned key holds a transaction with hash
  \<open>h\<close>). With null out-parameters the call returns true as well.
\<close>

theorem getStoredTx_byHash_finds:
  assumes "txDataEntries (dbsTable base (getDbSelect base BLKDATA)) = Map.empty"
    and "txHintsEntries (dbsTable base (getDbSelect base TXHINTS)) = Map.empty"
    and "this = foldl storeTxWithHints base txs"
    and "txDataEntries (dbsTable this (getDbSelect this BLKDATA)) key = Some stored"
    and "stx_hash stored = h"
  shows "\<exists>k t pre post.
      getStoredTx_byHash this h (Some stx0) (Some key0) = (True, Some t, Some k)
      \<and> fst (getStoredTx_byHash this h None None)
      \<and> stx_hash t = h
      \<and> txDataEntries (dbsTable this (getDbSelect this BLKDATA)) k = Some t
      \<and> sths_dbKeyList (getHintsForTxHash this h) = pre @ k # post
      \<and> (\<forall>c \<in> set pre. \<forall>u.
            txDataEntries (dbsTable this (getDbSelect this BLKDATA)) c = Some u
            \<longrightarrow> stx_hash u \<noteq> h)"
proof -
  from assms(1,2) have "hintsCoverTxs base"
    by (simp add: hintsCoverTxs_fresh txTable_def hintTable_def)
  with assms(3) have "hintsCoverTxs this"
    by (simp add: hintsCoverTxs_foldl)
  from hintsCoverTxs_listed [OF this assms(4)] assms(5) have "txListedWithHash this h"
    by simp
  then show ?thesis
    by (rule getStoredTx_byHash_listed)
qed

lemma collidingDb_txTable:
  "txTable (foldl storeTxWithHints freshDb
      [txWith hashA [0, 0, 100, 0, 0, 1], txWith hashB [0, 0, 100, 0, 0, 2]])
     = [[0, 0, 100, 0, 0, 1] \<mapsto> txWith hashA [0, 0, 100, 0, 0, 1],
        [0, 0, 100, 0, 0, 2] \<mapsto> txWith hashB [0, 0, 100, 0, 0, 2]]"
proof -
  have "txTable freshDb = Map.empty"
    by (simp add: txTable_def freshDb_def emptyLMDB_def)
  then show ?thesis
    by (simp add: txTable_storeTxWithHints txWith_def)
qed

theorem getStoredTx_byHash_finds_witness:
  "(\<exists>k t. getStoredTx_byHash
             (foldl storeTxWithHints freshDb
                [txWith hashA [0, 0, 100, 0, 0, 1], txWith hashB [0, 0, 100, 0, 0, 2]])
             hashB (Some (txWith [] [])) (Some [])
           = (True, Some t, Some k) \<and> stx_hash t = hashB)
   \<and> take 4 hashA = take 4 hashB \<and> hashA \<noteq> hashB"
proof -
  let ?db = "foldl storeTxWithHints freshDb
      [txWith hashA [0, 0, 100, 0, 0, 1], txWith hashB [0, 0, 100, 0, 0, 2]]"
  have a: "txDataEntries (dbsTable freshDb (getDbSelect freshDb BLKDATA)) = Map.empty"
    by (simp add: freshDb_def emptyLMDB_def)
  have b: "txHintsEntries (dbsTable freshDb (getDbSelect freshDb TXHINTS)) = Map.empty"
    by (simp add: freshDb_def emptyLMDB_def)
  have c: "txDataEntries (dbsTable ?db (getDbSelect ?db BLKDATA)) [0, 0, 100, 0, 0, 2]
      = Some (txWith hashB [0, 0, 100, 0, 0, 2])"
    using collidingDb_txTable by (simp add: txTable_def)
  have d: "stx_hash (txWith hashB [0, 0, 100, 0, 0, 2]) = hashB"
    by (simp add: txWith_def)
  from getStoredTx_byHash_finds [OF a b refl c d, of "txWith [] []" "[]"]
  have "\<exists>k t. getStoredTx_byHash ?db hashB (Some (txWith [] [])) (Some [])
               = (True, Some t, Some k) \<and> stx_hash t = hashB"
    by blast
  moreover have "take 4 hashA = take 4 hashB \<and> hashA \<noteq> hashB"
    by (simp add: hashA_def hashB_def)
  ultimately show ?thesis
    by blast
qed

subsection \<open>Missing entries\<close>

lemma getBareHeader_byHgtDup_missing:
  "headHgtEntries (dbsTable this (getDbSelect this HEADERS)) blkHgt = None \<Longrightarrow>
     getBareHeader_byHgtDup this sbh blkHgt dup = (False, sbh)"
  by (simp add: getBareHeader_byHgtDup_def)

lemma getBareHeader_byHash_not_found:
  "\<not> fst (getBareHeader_byHash this sbh headHash) \<Longrightarrow>
     snd (getBareHeader_byHash this sbh headHash) = sbh"
  by (simp add: getBareHeader_byHash_def split: option.splits)

lemma getBareHeader_byHgtDup_not_found:
  "\<not> fst (getBareHeader_byHgtDup this sbh blkHgt dup) \<Longrightarrow>
     snd (getBareHeader_byHgtDup this sbh blkHgt dup) = sbh"
  by (auto simp: getBareHeader_byHgtDup_def getBareHeader_byHash_def split: option.splits)

lemma getBareHeader_byHgt_not_found:
  "\<not> fst (getBareHeader_byHgt this sbh blkHgt) \<Longrightarrow>
     snd (getBareHeader_byHgt this sbh blkHgt) = sbh"
  by (auto simp: getBareHeader_byHgt_def getBareHeader_byHgtDup_not_found split: option.splits)

lemma getBareHeader_byHgtDup_no_dup:
  assumes "headHgtEntries (dbsTable this (getDbSelect this HEADERS)) blkHgt = Some hhl"
    and "\<forall>e \<in> set (hhl_dupAndHashList hhl). fst e AND 0x7F \<noteq> dup"
  shows "getBareHeader_byHgtDup this sbh blkHgt dup = (False, sbh)"
proof -
  from assms(2) have "List.find (\<lambda>(b, hash). b AND 0x7F = dup) (hhl_dupAndHashList hhl) = None"
    by (auto simp: find_None_iff)
  with assms(1) show ?thesis
    by (simp add: getBareHeader_byHgtDup_def)
qed

lemma getBareHeader_byHgtDup_no_header:
  assumes "headHgtEntries (dbsTable this (getDbSelect this HEADERS)) blkHgt = Some hhl"
    and "List.find (\<lambda>(b, hash). b AND 0x7F = dup) (hhl_dupAndHashList hhl) = Some (b, hash)"
    and "headHashEntries (dbsTable this (getDbSelect this HEADERS)) hash = None"
  shows "getBareHeader_byHgtDup this sbh blkHgt dup = (False, sbh)"
  using assms by (simp add: getBareHeader_byHgtDup_def getBareHeader_byHash_def)

lemma getBareHeader_byHgtDup_found:
  assumes "fst (getBareHeader_byHgtDup this sbh blkHgt dup)"
  shows "\<exists>hhl b hash.
      headHgtEntries (dbsTable this (getDbSelect this HEADERS)) blkHgt = Some hhl
      \<and> List.find (\<lambda>(b, hash). b AND 0x7F = dup) (hhl_dupAndHashList hhl) = Some (b, hash)
      \<and> headHashEntries (dbsTable this (getDbSelect this HEADERS)) hash
          = Some (snd (getBareHeader_byHgtDup this sbh blkHgt dup))"
  using assms
  by (auto simp: getBareHeader_byHgtDup_def getBareHeader_byHash_def split: option.splits)

lemma getStoredTx_byHash_not_listed:
  assumes "\<not> txListedWithHash this txHash"
  shows "getStoredTx_byHash this txHash stx DBkey = (False, stx, DBkey)"
proof -
  from assms have "firstTxWithHash (txDataEntries (dbsTable this (getDbSelect this BLKDATA)))
      txHash (sths_dbKeyList (getHintsForTxHash this txHash)) = None"
    unfolding firstTxWithHash_None txListedWithHash_iff by blast
  then show ?thesis by (simp add: getStoredTx_byHash_def)
qed

text \<open>
  C6. For every lookup with a key absent from the database, \<open>getBareHeader\<close> and
  \<open>getStoredTx_byHash\<close> return false, an ordinary result and not an error, and leave
  their out-parameters (the \<open>StoredHeader\<close>, the \<open>StoredTx\<close> and the DBkey) as the
  caller passed them. For \<open>getBareHeader\<close> by hash the key is absent when HEADHASH has no
  entry for the hash; by height and dupID, when HEADHGT has no list for the height, when
  the list of the height names no header with that dupID, or when the hash it names has no
  HEADHASH entry; by height alone, when no valid dupID is recorded for the height, and
  otherwise as for the height and its valid dupID. \<open>getBareHeader\<close> by height and dupID
  returns true only with the header that HEADHASH holds for the hash listed under that
  height and dupID, and whenever \<open>getBareHeader\<close> returns false the \<open>StoredHeader\<close> is
  unmodified. For \<open>getStoredTx_byHash\<close> the key is absent when no stored transaction has
  the hash, or none that the bucket of its prefix lists.
\<close>

theorem lookups_missing_entry:
  "(headHashEntries (dbsTable this (getDbSelect this HEADERS)) headHash = None \<longrightarrow>
      getBareHeader_byHash this sbh headHash = (False, sbh))
   \<and> (headHgtEntries (dbsTable this (getDbSelect this HEADERS)) blkHgt = None \<longrightarrow>
      getBareHeader_byHgtDup this sbh blkHgt dup = (False, sbh)
      \<and> getBareHeader_byHgt this sbh blkHgt = (False, sbh))
   \<and> (headHgtEntries (dbsTable this (getDbSelect this HEADERS)) blkHgt = Some hhl \<longrightarrow>
      (\<forall>e \<in> set (hhl_dupAndHashList hhl). fst e AND 0x7F \<noteq> dup) \<longrightarrow>
      getBareHeader_byHgtDup this sbh blkHgt dup = (False, sbh))
   \<and> (headHgtEntries (dbsTable this (getDbSelect this HEADERS)) blkHgt = Some hhl \<longrightarrow>
      List.find (\<lambda>(b, hash). b AND 0x7F = dup) (hhl_dupAndHashList hhl) = Some (b, hash) \<longrightarrow>
      headHashEntries (dbsTable this (getDbSelect this HEADERS)) hash = None \<longrightarrow>
      getBareHeader_byHgtDup this sbh blkHgt dup = (False, sbh))
   \<and> (fst (getBareHeader_byHgtDup this sbh blkHgt dup) \<longrightarrow>
      (\<exists>hhl' b' hash'.
         headHgtEntries (dbsTable this (getDbSelect this HEADERS)) blkHgt = Some hhl'
         \<and> List.find (\<lambda>(b, hash). b AND 0x7F = dup) (hhl_dupAndHashList hhl')
             = Some (b', hash')
         \<and> headHashEntries (dbsTable this (getDbSelect this HEADERS)) hash'
             = Some (snd (getBareHeader_byHgtDup this sbh blkHgt dup))))
   \<and> (getValidDupIDForHeight this blkHgt = None \<longrightarrow>
      getBareHeader_byHgt this sbh blkHgt = (False, sbh))
   \<and> (getValidDupIDForHeight this blkHgt = Some validDup \<longrightarrow>
      getBareHeader_byHgt this sbh blkHgt = getBareHeader_byHgtDup this sbh blkHgt validDup)
   \<and> (\<not> fst (getBareHeader_byHash this sbh headHash) \<longrightarrow>
      snd (getBareHeader_byHash this sbh headHash) = sbh)
   \<and> (\<not> fst (getBareHeader_byHgtDup this sbh blkHgt dup) \<longrightarrow>
      snd (getBareHeader_byHgtDup this sbh blkHgt dup) = sbh)
   \<and> (\<not> fst (getBareHeader_byHgt this sbh blkHgt) \<longrightarrow>
      snd (getBareHeader_byHgt this sbh blkHgt) = sbh)
   \<and> (\<not> txListedWithHash this txHash \<longrightarrow>
      getStoredTx_byHash this txHash stx DBkey = (False, stx, DBkey))
   \<and> ((\<forall>k t. txDataEntries (dbsTable this (getDbSelect this BLKDATA)) k = Some t
              \<longrightarrow> stx_hash t \<noteq> txHash) \<longrightarrow>
      getStoredTx_byHash this txHash stx DBkey = (False, stx, DBkey))"
proof -
  have byHash: "getBareHeader_byHash this sbh headHash = (False, sbh)"
    if "headHashEntries (dbsTable this (getDbSelect this HEADERS)) headHash = None"
    using that by (simp add: getBareHeader_byHash_def)
  have noList: "getBareHeader_byHgtDup this sbh blkHgt dup = (False, sbh)
      \<and> getBareHeader_byHgt this sbh blkHgt = (False, sbh)"
    if "headHgtEntries (dbsTable this (getDbSelect this HEADERS)) blkHgt = None"
    using that
    by (simp add: getBareHeader_byHgt_def getBareHeader_byHgtDup_missing split: option.splits)
  have noValid: "getBareHeader_byHgt this sbh blkHgt = (False, sbh)"
    if "getValidDupIDForHeight this blkHgt = None"
    using that by (simp add: getBareHeader_byHgt_def)
  have valid: "getBareHeader_byHgt this sbh blkHgt
      = getBareHeader_byHgtDup this sbh blkHgt validDup"
    if "getValidDupIDForHeight this blkHgt = Some validDup"
    using that by (simp add: getBareHeader_byHgt_def)
  have noTx: "getStoredTx_byHash this txHash stx DBkey = (False, stx, DBkey)"
    if "\<forall>k t. txDataEntries (dbsTable this (getDbSelect this BLKDATA)) k = Some t
          \<longrightarrow> stx_hash t \<noteq> txHash"
  proof -
    from that have "\<not> txListedWithHash this txHash"
      unfolding txListedWithHash_iff by blast
    then show ?thesis by (rule getStoredTx_byHash_not_listed)
  qed
  show ?thesis
    using byHash noList noValid valid noTx
      getBareHeader_byHgtDup_no_dup [of this blkHgt hhl dup sbh]
      getBareHeader_byHgtDup_no_header [of this blkHgt hhl dup b hash sbh]
      getBareHeader_byHgtDup_found [of this sbh blkHgt dup]
      getBareHeader_byHash_not_found [of this sbh headHash]
      getBareHeader_byHgtDup_not_found [of this sbh blkHgt dup]
      getBareHeader_byHgt_not_found [of this sbh blkHgt]
      getStoredTx_byHash_not_listed [of this txHash stx DBkey]
    by (intro conjI impI) blast+
qed

theorem lookups_missing_entry_witness:
  "getBareHeader_byHash exampleDb blankHeader hashC = (False, blankHeader)
   \<and> getBareHeader_byHgtDup exampleDb blankHeader 101 0 = (False, blankHeader)
   \<and> getBareHeader_byHgt exampleDb blankHeader 101 = (False, blankHeader)
   \<and> getBareHeader_byHgtDup exampleDb blankHeader 100 5 = (False, blankHeader)
   \<and> getBareHeader_byHgtDup exampleDbNoHeader blankHeader 100 0 = (False, blankHeader)
   \<and> getBareHeader_byHgt exampleDbNoHeader blankHeader 100 = (False, blankHeader)
   \<and> getStoredTx_byHash exampleDb hashC (Some (txWith [] [])) (Some [])
       = (False, Some (txWith [] []), Some [])"
proof -
  let ?list = "\<lparr>hhl_height = 100, hhl_dupAndHashList = [(0x80, headHashX)]\<rparr>"
  have a: "headHashEntries (dbsTable exampleDb (getDbSelect exampleDb HEADERS)) hashC = None"
    by (simp add: exampleDb_def exampleStores_def getDbSelect_def emptyLMDB_def
        hashC_def headHashX_def)
  have b: "headHgtEntries (dbsTable exampleDb (getDbSelect exampleDb HEADERS)) 101 = None"
    by (simp add: exampleDb_def exampleStores_def getDbSelect_def emptyLMDB_def)
  have c: "\<forall>k t. txDataEntries (dbsTable exampleDb (getDbSelect exampleDb BLKDATA)) k = Some t
      \<longrightarrow> stx_hash t \<noteq> hashC"
    by (simp add: exampleDb_def exampleStores_def getDbSelect_def emptyLMDB_def
        hashC_def hashB_def hashA_def txWith_def)
  have d: "headHgtEntries (dbsTable exampleDb (getDbSelect exampleDb HEADERS)) 100
      = Some ?list"
    by (simp add: exampleDb_def exampleStores_def getDbSelect_def emptyLMDB_def)
  have e: "\<forall>e \<in> set (hhl_dupAndHashList ?list). fst e AND 0x7F \<noteq> (5 :: 8 word)"
    by simp
  have f: "headHgtEntries (dbsTable exampleDbNoHeader (getDbSelect exampleDbNoHeader HEADERS))
      100 = Some ?list"
    by (simp add: exampleDbNoHeader_def exampleDb_def exampleStores_def getDbSelect_def
        emptyLMDB_def)
  have g: "List.find (\<lambda>(b, hash). b AND 0x7F = (0 :: 8 word)) (hhl_dupAndHashList ?list)
      = Some (0x80, headHashX)"
    by simp
  have h: "headHashEntries (dbsTable exampleDbNoHeader (getDbSelect exampleDbNoHeader HEADERS))
      headHashX = None"
    by (simp add: exampleDbNoHeader_def exampleDb_def exampleStores_def getDbSelect_def
        emptyLMDB_def)
  have v: "getValidDupIDForHeight exampleDbNoHeader 100 = Some 0"
    by (simp add: getValidDupIDForHeight_def exampleDbNoHeader_def exampleDb_def)
  have first: "getBareHeader_byHash exampleDb blankHeader hashC = (False, blankHeader)
      \<and> getBareHeader_byHgtDup exampleDb blankHeader 101 0 = (False, blankHeader)
      \<and> getBareHeader_byHgt exampleDb blankHeader 101 = (False, blankHeader)
      \<and> getStoredTx_byHash exampleDb hashC (Some (txWith [] [])) (Some [])
          = (False, Some (txWith [] []), Some [])"
    using a b c
      lookups_missing_entry [where this = exampleDb and headHash = hashC and blkHgt = 101
        and sbh = blankHeader and dup = 0 and txHash = hashC
        and stx = "Some (txWith [] [])" and DBkey = "Some []"]
    by blast
  have second: "getBareHeader_byHgtDup exampleDb blankHeader 100 5 = (False, blankHeader)"
    using d e
      lookups_missing_entry [where this = exampleDb and blkHgt = 100 and hhl = ?list
        and sbh = blankHeader and dup = 5]
    by blast
  have third: "getBareHeader_byHgtDup exampleDbNoHeader blankHeader 100 0
      = (False, blankHeader)"
    using f g h
      lookups_missing_entry [where this = exampleDbNoHeader and blkHgt = 100
        and hhl = ?list and sbh = blankHeader and dup = 0 and b = "0x80"
        and hash = headHashX]
    by blast
  have fourth: "getBareHeader_byHgt exampleDbNoHeader blankHeader 100 = (False, blankHeader)"
    using v third
      lookups_missing_entry [where this = exampleDbNoHeader and blkHgt = 100
        and sbh = blankHeader and validDup = 0]
    by simp
  from first second third fourth show ?thesis
    by blast
qed

subsection \<open>Valid dupIDs\<close>

text \<open>
  C7. For every height \<open>h\<close> that already has a valid dupID recorded (in the
  \<open>validDupByHeight_\<close> cache or in its persistent HEADHGT mirror) and every dupID \<open>d\<close>,
  \<open>setValidDupIDForHeight(h, d, overwrite = false)\<close> is a no-op: the database object is
  unchanged, so the cache entry and the mirror of \<open>h\<close> are unchanged, and a subsequent
  \<open>getValidDupIDForHeight(h)\<close> returns the value recorded before.
\<close>

theorem setValidDupIDForHeight_no_overwrite:
  assumes "validDupByHeight this h \<noteq> None \<or> getValidDupIDForHeight_fromDB this h \<noteq> None"
  shows "setValidDupIDForHeight this h d False = this
     \<and> validDupByHeight (setValidDupIDForHeight this h d False) h = validDupByHeight this h
     \<and> headHgtEntries (dbsTable (setValidDupIDForHeight this h d False) HEADERS) h
         = headHgtEntries (dbsTable this HEADERS) h
     \<and> getValidDupIDForHeight (setValidDupIDForHeight this h d False) h
         = getValidDupIDForHeight this h
     \<and> getValidDupIDForHeight this h \<noteq> None"
proof -
  from assms have "getValidDupIDForHeight this h \<noteq> None"
    by (auto simp: getValidDupIDForHeight_def split: option.splits)
  then show ?thesis
    by (simp add: setValidDupIDForHeight_def)
qed

theorem setValidDupIDForHeight_no_overwrite_witness:
  "setValidDupIDForHeight exampleDb 100 1 False = exampleDb
   \<and> getValidDupIDForHeight (setValidDupIDForHeight exampleDb 100 1 False) 100 = Some 0
   \<and> getValidDupIDForHeight
        (setValidDupIDForHeight (exampleDb\<lparr>validDupByHeight := Map.empty\<rparr>) 100 1 False) 100
       = Some 0"
proof -
  have cached: "validDupByHeight exampleDb 100 = Some 0"
    by (simp add: exampleDb_def)
  have mirrored: "getValidDupIDForHeight_fromDB (exampleDb\<lparr>validDupByHeight := Map.empty\<rparr>) 100
      = Some 0"
    by (simp add: getValidDupIDForHeight_fromDB_def exampleDb_def exampleStores_def
        getDbSelect_def emptyLMDB_def)
  have g1: "getValidDupIDForHeight exampleDb 100 = Some 0"
    using cached by (simp add: getValidDupIDForHeight_def)
  have g2: "getValidDupIDForHeight (exampleDb\<lparr>validDupByHeight := Map.empty\<rparr>) 100 = Some 0"
    using mirrored by (simp add: getValidDupIDForHeight_def)
  from cached mirrored g1 g2
    setValidDupIDForHeight_no_overwrite [where this = exampleDb and h = 100 and d = 1]
    setValidDupIDForHeight_no_overwrite
      [where this = "exampleDb\<lparr>validDupByHeight := Map.empty\<rparr>" and h = 100 and d = 1]
  show ?thesis
    by simp
qed

end
